theory Spec2Isabelle
  imports Complex_Main
begin

section \<open>Floating-point values\<close>

text \<open>
  The tensors and Python floats of \<^verbatim>\<open>dqn_agent.py\<close> hold IEEE-754 values. A value is a
  finite number, one of the two infinities, or NaN. Infinities and NaN follow the IEEE
  rules (\<open>inf * 0 = nan\<close>, \<open>inf - inf = nan\<close>, NaN is absorbing, every comparison with
  NaN is false). Finite values are modelled as reals with exact arithmetic: rounding
  and overflow to infinity are outside the model, and the two signed zeros are one value.
\<close>

datatype fl = Fin real | PInf | NInf | NaN

fun fneg :: "fl \<Rightarrow> fl" where
  "fneg (Fin a) = Fin (- a)"
| "fneg PInf = NInf"
| "fneg NInf = PInf"
| "fneg NaN = NaN"

fun fadd :: "fl \<Rightarrow> fl \<Rightarrow> fl" where
  "fadd NaN y = NaN"
| "fadd x NaN = NaN"
| "fadd (Fin a) (Fin b) = Fin (a + b)"
| "fadd (Fin a) y = y"
| "fadd x (Fin b) = x"
| "fadd PInf PInf = PInf"
| "fadd NInf NInf = NInf"
| "fadd PInf NInf = NaN"
| "fadd NInf PInf = NaN"

definition fsub :: "fl \<Rightarrow> fl \<Rightarrow> fl" where
  "fsub x y = fadd x (fneg y)"

definition scale_inf :: "fl \<Rightarrow> real \<Rightarrow> fl" where
  \<comment> \<open>an infinity times a finite number: the sign rule, and \<open>inf * 0 = nan\<close>\<close>
  "scale_inf x a = (if 0 < a then x else if a < 0 then fneg x else NaN)"

fun fmul :: "fl \<Rightarrow> fl \<Rightarrow> fl" where
  "fmul NaN y = NaN"
| "fmul x NaN = NaN"
| "fmul (Fin a) (Fin b) = Fin (a * b)"
| "fmul (Fin a) y = scale_inf y a"
| "fmul x (Fin b) = scale_inf x b"
| "fmul PInf y = y"
| "fmul NInf y = fneg y"

fun fgt :: "fl \<Rightarrow> fl \<Rightarrow> bool" where
  "fgt NaN y = False"
| "fgt x NaN = False"
| "fgt (Fin a) (Fin b) = (b < a)"
| "fgt x PInf = False"
| "fgt NInf y = False"
| "fgt x y = True"


definition fmax2 :: "fl \<Rightarrow> fl \<Rightarrow> fl" where
  \<comment> \<open>the larger of two values; NaN propagates, as in \<^verbatim>\<open>torch.max\<close>\<close>
  "fmax2 x y = (if x = NaN \<or> y = NaN then NaN else if fgt y x then y else x)"

definition fabs :: "fl \<Rightarrow> fl" where
  "fabs x = (if fgt (Fin 0) x then fneg x else x)"

section \<open>Errors\<close>

text \<open>A Python exception is its class and its message.\<close>

datatype error = ValueError string | RuntimeError string | IndexError string

fun mapE :: "('a \<Rightarrow> error + 'b) \<Rightarrow> 'a list \<Rightarrow> error + 'b list" where
  \<comment> \<open>apply a function that may raise to every element; the first exception ends the run\<close>
  "mapE f [] = Inr []"
| "mapE f (x # xs) =
     (case f x of
        Inl e \<Rightarrow> Inl e
      | Inr y \<Rightarrow> (case mapE f xs of Inl e \<Rightarrow> Inl e | Inr ys \<Rightarrow> Inr (y # ys)))"

section \<open>Hyperparameters\<close>

definition BUFFER_SIZE :: nat where "BUFFER_SIZE = 100000"
definition BATCH_SIZE :: nat where "BATCH_SIZE = 64"
definition GAMMA :: fl where "GAMMA = Fin (99 / 100)"
definition TAU :: fl where "TAU = Fin (1 / 1000)"
definition LR :: fl where "LR = Fin (5 / 10000)"
definition UPDATE_EVERY :: nat where "UPDATE_EVERY = 4"

section \<open>Python's module \<^verbatim>\<open>random\<close>\<close>

text \<open>
  The transitions stored by the replay buffer: the named tuple \<^verbatim>\<open>Experience\<close>. The field
  \<^verbatim>\<open>done\<close> is called \<open>is_done\<close> here.
\<close>

record experience =
  state :: "fl list"
  action :: int
  reward :: fl
  next_state :: "fl list"
  is_done :: bool

text \<open>
  The generator of module \<^verbatim>\<open>random\<close> is process-wide state, of a type \<open>'g\<close>. Its
  algorithm is not part of the repository: the functions of the module that the agent
  calls are parameters, each taking the generator state and returning the new one.
  \<^verbatim>\<open>random.random()\<close> returns a float in \<open>[0.0, 1.0)\<close>; \<open>random_randbelow n\<close> is the index
  below \<open>n\<close> that \<^verbatim>\<open>random.choice\<close> draws for a sequence of length \<open>n\<close>;
  \<open>random_sample pop k\<close> is \<^verbatim>\<open>random.sample(pop, k)\<close> for \<open>k \<le> length pop\<close>.
\<close>

record 'g random_module =
  random_seed :: "int \<Rightarrow> 'g"
  random_random :: "'g \<Rightarrow> real \<times> 'g"
  random_randbelow :: "nat \<Rightarrow> 'g \<Rightarrow> nat \<times> 'g"
  random_sample :: "experience list \<Rightarrow> nat \<Rightarrow> 'g \<Rightarrow> experience list \<times> 'g"

section \<open>The replay buffer\<close>

text \<open>
  \<^verbatim>\<open>collections.deque(maxlen=n)\<close>: \<^verbatim>\<open>append\<close> adds on the right and, when the deque
  then holds more than \<open>maxlen\<close> items, drops the leftmost one.
\<close>

record 'a deque =
  items :: "'a list"
  maxlen :: nat

definition deque_append :: "'a deque \<Rightarrow> 'a \<Rightarrow> 'a deque" where
  "deque_append d x =
     (let ys = items d @ [x] in d\<lparr>items := (if maxlen d < length ys then tl ys else ys)\<rparr>)"

record replay_buffer =
  buf_action_size :: nat
  buf_memory :: "experience deque"
  batch_size :: nat

text \<open>
  The five column tensors that \<^verbatim>\<open>sample\<close> returns. The filter \<^verbatim>\<open>if e is not None\<close> of \<^verbatim>\<open>sample\<close>
  keeps every experience, since \<^verbatim>\<open>add\<close> stores named tuples only; \<^verbatim>\<open>done\<close> becomes \<open>1.0\<close>
  or \<open>0.0\<close>.
\<close>

record batch =
  states :: "fl list list"
  actions :: "int list"
  rewards :: "fl list"
  next_states :: "fl list list"
  dones :: "fl list"

definition ReplayBuffer_init ::
  "'g random_module \<Rightarrow> nat \<Rightarrow> nat \<Rightarrow> nat \<Rightarrow> int \<Rightarrow> replay_buffer \<times> 'g" where
  \<comment> \<open>the buffer, and the generator state that \<^verbatim>\<open>random.seed(seed)\<close> leaves\<close>
  "ReplayBuffer_init R asz buffer_size bsz seed =
     (\<lparr>buf_action_size = asz, buf_memory = \<lparr>items = [], maxlen = buffer_size\<rparr>,
       batch_size = bsz\<rparr>, random_seed R seed)"

definition add :: "replay_buffer \<Rightarrow> fl list \<Rightarrow> int \<Rightarrow> fl \<Rightarrow> fl list \<Rightarrow> bool \<Rightarrow> replay_buffer" where
  "add b s a r s' d =
     (let e = \<lparr>state = s, action = a, reward = r, next_state = s', is_done = d\<rparr>
      in b\<lparr>buf_memory := deque_append (buf_memory b) e\<rparr>)"

definition buffer_len :: "replay_buffer \<Rightarrow> nat" where
  \<comment> \<open>\<^verbatim>\<open>__len__\<close>\<close>
  "buffer_len b = length (items (buf_memory b))"

definition vstack :: "'a list list \<Rightarrow> error + 'a list list" where
  \<comment> \<open>\<^verbatim>\<open>np.vstack\<close> of one-dimensional arrays: one row each, all of one length\<close>
  "vstack rows =
     (case rows of
        [] \<Rightarrow> Inl (ValueError ''need at least one array to concatenate'')
      | r # rs \<Rightarrow>
          if list_all (\<lambda>x. length x = length r) rs then Inr rows
          else Inl (ValueError ''all the input array dimensions except for the concatenation axis must match exactly''))"

definition vstack_scalars :: "'a list \<Rightarrow> error + 'a list" where
  \<comment> \<open>\<^verbatim>\<open>np.vstack\<close> of scalars: a column, one row each\<close>
  "vstack_scalars xs =
     (case xs of
        [] \<Rightarrow> Inl (ValueError ''need at least one array to concatenate'')
      | _ \<Rightarrow> Inr xs)"

definition sample :: "'g random_module \<Rightarrow> replay_buffer \<Rightarrow> 'g \<Rightarrow> error + batch \<times> 'g" where
  "sample R b g =
     (let pop = items (buf_memory b); k = batch_size b in
      if length pop < k then Inl (ValueError ''Sample larger than population or is negative'')
      else
        (let (experiences, g') = random_sample R pop k g in
         (case vstack (map state experiences) of Inl e \<Rightarrow> Inl e | Inr sts \<Rightarrow>
         (case vstack_scalars (map action experiences) of Inl e \<Rightarrow> Inl e | Inr acts \<Rightarrow>
         (case vstack_scalars (map reward experiences) of Inl e \<Rightarrow> Inl e | Inr rws \<Rightarrow>
         (case vstack (map next_state experiences) of Inl e \<Rightarrow> Inl e | Inr nsts \<Rightarrow>
         (case vstack_scalars (map is_done experiences) of Inl e \<Rightarrow> Inl e | Inr dns \<Rightarrow>
            Inr (\<lparr>states = sts, actions = acts, rewards = rws, next_states = nsts,
                  dones = map (\<lambda>d. if d then Fin 1 else Fin 0) dns\<rparr>, g'))))))))"

section \<open>The network of \<^verbatim>\<open>model.py\<close>\<close>

text \<open>
  An \<^verbatim>\<open>nn.Linear\<close> layer: its weight has \<open>out_features\<close> rows of \<open>in_features\<close>
  elements, its bias \<open>out_features\<close> elements.
\<close>

record linear =
  in_features :: nat
  out_features :: nat
  weight :: "fl list list"
  bias :: "fl list"

record qnetwork =
  fc1 :: linear
  fc2 :: linear
  fc3 :: linear
  fc4 :: linear

text \<open>
  What the agent uses of torch and is not in the repository, as parameters: the
  process-wide generator (of a type \<open>'t\<close>) with \<^verbatim>\<open>torch.manual_seed\<close>, the constructor
  of \<^verbatim>\<open>nn.Linear\<close>, which draws the initial weights from that generator, and the Adam
  optimizer (its state of a type \<open>'o\<close>). \<open>Adam_step opt q loss\<close> is
  \<^verbatim>\<open>zero_grad(); loss.backward(); step()\<close>: one update of the parameters \<open>q\<close> along the
  gradient of \<open>loss\<close>, a function of the parameters.
\<close>

record ('t, 'o) torch =
  manual_seed :: "int \<Rightarrow> 't"
  Linear_init :: "nat \<Rightarrow> nat \<Rightarrow> 't \<Rightarrow> linear \<times> 't"
  Adam_init :: "qnetwork \<Rightarrow> fl \<Rightarrow> 'o"
  Adam_step :: "'o \<Rightarrow> qnetwork \<Rightarrow> (qnetwork \<Rightarrow> error + fl) \<Rightarrow> 'o \<times> qnetwork"

definition QNetwork_init ::
  "('t, 'o) torch \<Rightarrow> nat \<Rightarrow> nat \<Rightarrow> int \<Rightarrow> 't \<Rightarrow> qnetwork \<times> 't" where
  \<comment> \<open>\<open>tg\<close> is the state of torch's generator before the call\<close>
  "QNetwork_init T ssz asz seed tg =
     (let g0 = manual_seed T seed;
          (l1, g1) = Linear_init T ssz 256 g0;
          (l2, g2) = Linear_init T 256 128 g1;
          (l3, g3) = Linear_init T 128 64 g2;
          (l4, g4) = Linear_init T 64 asz g3
      in (\<lparr>fc1 = l1, fc2 = l2, fc3 = l3, fc4 = l4\<rparr>, g4))"

definition dot :: "fl list \<Rightarrow> fl list \<Rightarrow> fl" where
  "dot w x = foldl fadd (Fin 0) (map2 fmul w x)"

definition linear_apply :: "linear \<Rightarrow> fl list \<Rightarrow> error + fl list" where
  \<comment> \<open>\<open>x W\<^sup>T + b\<close> for one input row \<open>x\<close>\<close>
  "linear_apply l x =
     (if length x \<noteq> in_features l
      then Inl (RuntimeError ''mat1 and mat2 shapes cannot be multiplied'')
      else Inr (map2 (\<lambda>w b. fadd (dot w x) b) (weight l) (bias l)))"

definition leaky_relu :: "fl \<Rightarrow> fl" where
  \<comment> \<open>\<^verbatim>\<open>F.leaky_relu\<close> with its default slope 0.01\<close>
  "leaky_relu x = (if fgt x (Fin 0) then x else fmul x (Fin (1 / 100)))"

definition forward :: "qnetwork \<Rightarrow> fl list \<Rightarrow> error + fl list" where
  "forward q x =
     (case linear_apply (fc1 q) x of Inl e \<Rightarrow> Inl e | Inr h1 \<Rightarrow>
     (case linear_apply (fc2 q) (map leaky_relu h1) of Inl e \<Rightarrow> Inl e | Inr h2 \<Rightarrow>
     (case linear_apply (fc3 q) (map leaky_relu h2) of Inl e \<Rightarrow> Inl e | Inr h3 \<Rightarrow>
        linear_apply (fc4 q) (map leaky_relu h3))))"

definition forward_batch :: "qnetwork \<Rightarrow> fl list list \<Rightarrow> error + fl list list" where
  \<comment> \<open>the network on a batch, a list of rows\<close>
  "forward_batch q xs = mapE (forward q) xs"

section \<open>Tensor operations of \<^verbatim>\<open>learn\<close> and \<^verbatim>\<open>act\<close>\<close>

definition row_max :: "fl list \<Rightarrow> error + fl" where
  \<comment> \<open>one row of \<^verbatim>\<open>.max(1)[0]\<close>\<close>
  "row_max xs =
     (case xs of
        [] \<Rightarrow> Inl (IndexError ''max(): Expected reduction dim 1 to have non-zero size'')
      | x # xs' \<Rightarrow> Inr (foldl fmax2 x xs'))"

definition gather_row :: "fl list \<times> int \<Rightarrow> error + fl" where
  "gather_row p =
     (case p of (row, a) \<Rightarrow>
        if 0 \<le> a \<and> nat a < length row then Inr (row ! nat a)
        else Inl (RuntimeError ''index out of range in self''))"

definition gather :: "fl list list \<Rightarrow> int list \<Rightarrow> error + fl list" where
  \<comment> \<open>\<^verbatim>\<open>torch.gather(input, 1, index)\<close> for an index tensor of one column\<close>
  "gather qs acts =
     (if length qs < length acts
      then Inl (RuntimeError ''Size does not match at dimension 0'')
      else mapE gather_row (zip qs acts))"

fun argmax_from :: "fl list \<Rightarrow> nat \<Rightarrow> nat \<Rightarrow> fl \<Rightarrow> nat" where
  \<comment> \<open>scan from index \<open>i\<close> with the best index and value so far; the first NaN wins\<close>
  "argmax_from [] i bi bv = bi"
| "argmax_from (x # xs) i bi bv =
     (if bv \<noteq> NaN \<and> (x = NaN \<or> fgt x bv) then argmax_from xs (i + 1) i x
      else argmax_from xs (i + 1) bi bv)"

definition argmax :: "fl list \<Rightarrow> error + nat" where
  \<comment> \<open>\<^verbatim>\<open>np.argmax\<close>: the first index of the maximum\<close>
  "argmax xs =
     (case xs of
        [] \<Rightarrow> Inl (ValueError ''attempt to get argmax of an empty sequence'')
      | x # xs' \<Rightarrow> Inr (argmax_from xs' 1 0 x))"

section \<open>The TD target of \<^verbatim>\<open>Agent.learn\<close>\<close>

text \<open>
  \<^verbatim>\<open>rewards\<close>, \<^verbatim>\<open>Qsa_max\<close> and \<^verbatim>\<open>dones\<close> are tensors of shape \<open>(n, 1)\<close>, modelled as
  lists of length \<open>n\<close>. A binary operation on two of them is elementwise when the
  lengths agree, broadcasts a one-element tensor, and raises otherwise.
\<close>

definition bcast2 :: "(fl \<Rightarrow> fl \<Rightarrow> fl) \<Rightarrow> fl list \<Rightarrow> fl list \<Rightarrow> error + fl list" where
  "bcast2 f xs ys =
     (if length xs = length ys then Inr (map2 f xs ys)
      else if length xs = 1 then Inr (map (f (hd xs)) ys)
      else if length ys = 1 then Inr (map (\<lambda>x. f x (hd ys)) xs)
      else Inl (RuntimeError ''The size of tensor a must match the size of tensor b''))"

definition td_target :: "fl \<Rightarrow> fl list \<Rightarrow> fl list \<Rightarrow> fl list \<Rightarrow> error + fl list" where
  \<comment> \<open>\<^verbatim>\<open>y = rewards + gamma*Qsa_max*(1-dones)\<close>\<close>
  "td_target gamma rws qmax dns =
     (case bcast2 fmul (map (fmul gamma) qmax) (map (fsub (Fin 1)) dns) of
        Inl e \<Rightarrow> Inl e
      | Inr boot \<Rightarrow> bcast2 fadd rws boot)"

section \<open>The loss and the soft update\<close>

definition smooth_l1 :: "fl \<Rightarrow> fl \<Rightarrow> fl" where
  \<comment> \<open>one element of \<^verbatim>\<open>torch.nn.SmoothL1Loss\<close> (beta = 1)\<close>
  "smooth_l1 x y =
     (let d = fabs (fsub x y)
      in if fgt (Fin 1) d then fmul (Fin (1 / 2)) (fmul d d) else fsub d (Fin (1 / 2)))"

definition fmean :: "fl list \<Rightarrow> fl" where
  \<comment> \<open>the mean of a tensor; NaN for an empty one\<close>
  "fmean zs = (if zs = [] then NaN else fmul (foldl fadd (Fin 0) zs) (Fin (1 / real (length zs))))"

definition SmoothL1Loss :: "fl list \<Rightarrow> fl list \<Rightarrow> error + fl" where
  "SmoothL1Loss inp tgt =
     (case bcast2 smooth_l1 inp tgt of Inl e \<Rightarrow> Inl e | Inr zs \<Rightarrow> Inr (fmean zs))"

definition blend :: "fl \<Rightarrow> fl \<Rightarrow> fl \<Rightarrow> fl" where
  \<comment> \<open>\<^verbatim>\<open>tau*local_param.data+(1.-tau)*target_param.data\<close>, one element\<close>
  "blend tau l t = fadd (fmul tau l) (fmul (fsub (Fin 1) tau) t)"

text \<open>
  \<^verbatim>\<open>copy_\<close> writes into the target tensor, so the right-hand side must have the target's
  shape after broadcasting: every dimension of the local tensor equals the target's or
  is 1. A local dimension of 1 is repeated.
\<close>

definition fits :: "nat \<Rightarrow> nat \<Rightarrow> bool" where
  "fits l t = (l = t \<or> l = 1)"

definition expand :: "nat \<Rightarrow> 'a list \<Rightarrow> 'a list" where
  "expand n xs = (if length xs = n then xs else replicate n (hd xs))"

definition blend_vec :: "fl \<Rightarrow> fl list \<Rightarrow> fl list \<Rightarrow> fl list" where
  "blend_vec tau l t = map2 (blend tau) (expand (length t) l) t"

definition blend_mat :: "fl \<Rightarrow> fl list list \<Rightarrow> fl list list \<Rightarrow> fl list list" where
  "blend_mat tau l t = map2 (blend_vec tau) (expand (length t) l) t"

definition soft_update_layer :: "fl \<Rightarrow> linear \<Rightarrow> linear \<Rightarrow> error + linear" where
  \<comment> \<open>the weight and the bias of one layer, in the order of \<^verbatim>\<open>parameters()\<close>\<close>
  "soft_update_layer tau l t =
     (if fits (out_features l) (out_features t) \<and> fits (in_features l) (in_features t)
      then Inr (t\<lparr>weight := blend_mat tau (weight l) (weight t),
                  bias := blend_vec tau (bias l) (bias t)\<rparr>)
      else Inl (RuntimeError ''The size of tensor a must match the size of tensor b''))"

definition soft_update :: "qnetwork \<Rightarrow> qnetwork \<Rightarrow> fl \<Rightarrow> error + qnetwork \<times> qnetwork" where
  \<comment> \<open>returns \<open>(local_model, target_model)\<close> as they are after the call\<close>
  "soft_update local_model target_model tau =
     (case soft_update_layer tau (fc1 local_model) (fc1 target_model) of Inl e \<Rightarrow> Inl e | Inr t1 \<Rightarrow>
     (case soft_update_layer tau (fc2 local_model) (fc2 target_model) of Inl e \<Rightarrow> Inl e | Inr t2 \<Rightarrow>
     (case soft_update_layer tau (fc3 local_model) (fc3 target_model) of Inl e \<Rightarrow> Inl e | Inr t3 \<Rightarrow>
     (case soft_update_layer tau (fc4 local_model) (fc4 target_model) of Inl e \<Rightarrow> Inl e | Inr t4 \<Rightarrow>
        Inr (local_model, \<lparr>fc1 = t1, fc2 = t2, fc3 = t3, fc4 = t4\<rparr>)))))"


section \<open>The agent\<close>

text \<open>
  The history of an agent, kept beside its fields to state what a call did: one event
  for each call of \<^verbatim>\<open>memory.sample\<close> and of \<^verbatim>\<open>learn\<close>, for the computation of the
  targets \<open>y\<close>, for each optimizer step (with the targets of its loss) and for each
  soft update. No code reads it.
\<close>

datatype event =
  Ev_sample | Ev_learn | Ev_targets "fl list" | Ev_gradient_step "fl list" | Ev_soft_update

text \<open>
  \<open>py_rng\<close> is the state of the generator of module \<^verbatim>\<open>random\<close>, which \<^verbatim>\<open>act\<close> and
  \<^verbatim>\<open>ReplayBuffer.sample\<close> draw from. The attribute \<^verbatim>\<open>seed\<close> (always \<^verbatim>\<open>None\<close>), the device
  and the mode flag that \<^verbatim>\<open>act\<close> clears with \<^verbatim>\<open>eval()\<close> and sets again with \<^verbatim>\<open>train()\<close>
  (the network has no layer that reads it) are left out. A call that raises returns the
  exception alone.
\<close>

record ('g, 'o) agent =
  state_size :: nat
  action_size :: nat
  qnetwork_local :: qnetwork
  qnetwork_target :: qnetwork
  optimizer :: 'o
  memory :: replay_buffer
  t_step :: nat
  py_rng :: 'g
  trace :: "event list"

definition Agent_init ::
  "'g random_module \<Rightarrow> ('t, 'o) torch \<Rightarrow> nat \<Rightarrow> nat \<Rightarrow> int \<Rightarrow> 't \<Rightarrow> ('g, 'o) agent \<times> 't" where
  \<comment> \<open>\<open>tg\<close> is the state of torch's generator before the call\<close>
  "Agent_init R T ssz asz seed tg =
     (let g0 = random_seed R seed;
          (qlocal, tg1) = QNetwork_init T ssz asz seed tg;
          (qtarget, tg2) = QNetwork_init T ssz asz seed tg1;
          opt = Adam_init T qlocal LR;
          (mem, g1) = ReplayBuffer_init R asz BUFFER_SIZE BATCH_SIZE seed
      in (\<lparr>state_size = ssz, action_size = asz, qnetwork_local = qlocal,
            qnetwork_target = qtarget, optimizer = opt, memory = mem, t_step = 0,
            py_rng = g1, trace = []\<rparr>, tg2))"

definition compute_targets :: "qnetwork \<Rightarrow> batch \<Rightarrow> fl \<Rightarrow> error + fl list" where
  \<comment> \<open>\<^verbatim>\<open>Qsa_max\<close> from the target network, then \<open>y\<close>\<close>
  "compute_targets q b gamma =
     (case forward_batch q (next_states b) of Inl e \<Rightarrow> Inl e | Inr qn \<Rightarrow>
     (case mapE row_max qn of Inl e \<Rightarrow> Inl e | Inr qmax \<Rightarrow>
        td_target gamma (rewards b) qmax (dones b)))"

definition loss_of :: "batch \<Rightarrow> fl list \<Rightarrow> qnetwork \<Rightarrow> error + fl" where
  \<comment> \<open>\<^verbatim>\<open>criterion(torch.gather(qnetwork_local(states),1,actions), y)\<close> as a function of the network\<close>
  "loss_of b y q =
     (case forward_batch q (states b) of Inl e \<Rightarrow> Inl e | Inr qs \<Rightarrow>
     (case gather qs (actions b) of Inl e \<Rightarrow> Inl e | Inr Qsa_local \<Rightarrow>
        SmoothL1Loss Qsa_local y))"

definition epoch ::
  "('t, 'o) torch \<Rightarrow> batch \<Rightarrow> fl list \<Rightarrow> ('g, 'o) agent \<Rightarrow> error + ('g, 'o) agent" where
  \<comment> \<open>the body of the loop of \<^verbatim>\<open>learn\<close>\<close>
  "epoch T b y ag =
     (case loss_of b y (qnetwork_local ag) of Inl e \<Rightarrow> Inl e | Inr loss \<Rightarrow>
        (let (opt, q) = Adam_step T (optimizer ag) (qnetwork_local ag) (loss_of b y);
             ag1 = ag\<lparr>qnetwork_local := q, optimizer := opt,
                      trace := trace ag @ [Ev_gradient_step y]\<rparr>
         in (case soft_update (qnetwork_local ag1) (qnetwork_target ag1) TAU of
               Inl e \<Rightarrow> Inl e
             | Inr (l, t) \<Rightarrow>
                 Inr (ag1\<lparr>qnetwork_local := l, qnetwork_target := t,
                          trace := trace ag1 @ [Ev_soft_update]\<rparr>))))"

fun epochs ::
  "('t, 'o) torch \<Rightarrow> batch \<Rightarrow> fl list \<Rightarrow> nat \<Rightarrow> ('g, 'o) agent \<Rightarrow> error + ('g, 'o) agent" where
  \<comment> \<open>\<^verbatim>\<open>for epoch in range(n)\<close>\<close>
  "epochs T b y 0 ag = Inr ag"
| "epochs T b y (Suc n) ag =
     (case epoch T b y ag of Inl e \<Rightarrow> Inl e | Inr ag' \<Rightarrow> epochs T b y n ag')"

definition num_epoches :: nat where "num_epoches = 10"

definition learn ::
  "('t, 'o) torch \<Rightarrow> ('g, 'o) agent \<Rightarrow> batch \<Rightarrow> fl \<Rightarrow> error + ('g, 'o) agent" where
  "learn T ag experiences gamma =
     (case compute_targets (qnetwork_target ag) experiences gamma of
        Inl e \<Rightarrow> Inl e
      | Inr y \<Rightarrow>
          epochs T experiences y num_epoches
            (ag\<lparr>trace := trace ag @ [Ev_learn, Ev_targets y]\<rparr>))"

definition step ::
  "'g random_module \<Rightarrow> ('t, 'o) torch \<Rightarrow> ('g, 'o) agent \<Rightarrow>
     fl list \<Rightarrow> int \<Rightarrow> fl \<Rightarrow> fl list \<Rightarrow> bool \<Rightarrow> error + ('g, 'o) agent" where
  "step R T ag s a r s' d =
     (let ag1 = ag\<lparr>memory := add (memory ag) s a r s' d\<rparr>;
          ag2 = ag1\<lparr>t_step := (t_step ag1 + 1) mod UPDATE_EVERY\<rparr>
      in if t_step ag2 = 0 then
           if BATCH_SIZE < buffer_len (memory ag2) then
             (case sample R (memory ag2) (py_rng ag2) of
                Inl e \<Rightarrow> Inl e
              | Inr (experiences, g) \<Rightarrow>
                  learn T (ag2\<lparr>py_rng := g, trace := trace ag2 @ [Ev_sample]\<rparr>)
                    experiences GAMMA)
           else Inr ag2
         else Inr ag2)"

definition act ::
  "'g random_module \<Rightarrow> ('g, 'o) agent \<Rightarrow> fl list \<Rightarrow> fl \<Rightarrow> error + nat \<times> ('g, 'o) agent" where
  \<comment> \<open>the action, and the agent with the generator state the call leaves\<close>
  "act R ag s eps =
     (case forward_batch (qnetwork_local ag) [s] of
        Inl e \<Rightarrow> Inl e
      | Inr action_values \<Rightarrow>
          (let (u, g1) = random_random R (py_rng ag) in
           if fgt (Fin u) eps then
             (case argmax (concat action_values) of
                Inl e \<Rightarrow> Inl e
              | Inr a \<Rightarrow> Inr (a, ag\<lparr>py_rng := g1\<rparr>))
           else if action_size ag = 0
           then Inl (IndexError ''Cannot choose from an empty sequence'')
           else (let (j, g2) = random_randbelow R (action_size ag) g1
                 in Inr (j, ag\<lparr>py_rng := g2\<rparr>))))"

section \<open>Driving the agent and the buffer\<close>

text \<open>A training driver calls \<^verbatim>\<open>step\<close> once for each transition, in order.\<close>

fun steps ::
  "'g random_module \<Rightarrow> ('t, 'o) torch \<Rightarrow> ('g, 'o) agent \<Rightarrow> experience list \<Rightarrow>
     error + ('g, 'o) agent" where
  "steps R T ag [] = Inr ag"
| "steps R T ag (e # es) =
     (case step R T ag (state e) (action e) (reward e) (next_state e) (is_done e) of
        Inl x \<Rightarrow> Inl x
      | Inr ag' \<Rightarrow> steps R T ag' es)"

fun add_all :: "replay_buffer \<Rightarrow> experience list \<Rightarrow> replay_buffer" where
  "add_all b [] = b"
| "add_all b (e # es) =
     add_all (add b (state e) (action e) (reward e) (next_state e) (is_done e)) es"

section \<open>Concrete libraries and networks for the examples\<close>

text \<open>
  A generator whose state is the list of the floats that \<^verbatim>\<open>random.random()\<close> will return
  and the list of the indices that \<^verbatim>\<open>random.choice\<close> will draw; \<^verbatim>\<open>random.sample\<close> takes
  the first \<open>k\<close> items.
\<close>

definition scripted_random :: "(real list \<times> nat list) random_module" where
  "scripted_random =
     \<lparr>random_seed = (\<lambda>seed. ([], [])),
      random_random = (\<lambda>g. case g of (us, js) \<Rightarrow>
         (case us of [] \<Rightarrow> (1 / 2, ([], js)) | u # us' \<Rightarrow> (u, (us', js)))),
      random_randbelow = (\<lambda>n g. case g of (us, js) \<Rightarrow>
         (case js of [] \<Rightarrow> (0, (us, [])) | j # js' \<Rightarrow> (j mod n, (us, js')))),
      random_sample = (\<lambda>pop k g. (take k pop, g))\<rparr>"

definition zero_linear :: "nat \<Rightarrow> nat \<Rightarrow> linear" where
  "zero_linear i k =
     \<lparr>in_features = i, out_features = k,
      weight = replicate k (replicate i (Fin 0)), bias = replicate k (Fin 0)\<rparr>"

text \<open>A torch whose layers start at zero and whose optimizer leaves the parameters.\<close>

definition plain_torch :: "(unit, unit) torch" where
  "plain_torch =
     \<lparr>manual_seed = (\<lambda>seed. ()),
      Linear_init = (\<lambda>i k g. (zero_linear i k, g)),
      Adam_init = (\<lambda>q lr. ()),
      Adam_step = (\<lambda>opt q loss. (opt, q))\<rparr>"

definition unit_linear :: linear where
  "unit_linear = \<lparr>in_features = 1, out_features = 1, weight = [[Fin 1]], bias = [Fin 0]\<rparr>"

text \<open>A network of one input and two actions; its output on every input is \<open>[1, 0]\<close>.\<close>

definition tiny_net :: qnetwork where
  "tiny_net =
     \<lparr>fc1 = unit_linear, fc2 = unit_linear, fc3 = unit_linear,
      fc4 = \<lparr>in_features = 1, out_features = 2, weight = [[Fin 0], [Fin 0]],
              bias = [Fin 1, Fin 0]\<rparr>\<rparr>"

definition tiny_agent :: "real list \<times> nat list \<Rightarrow> (real list \<times> nat list, unit) agent" where
  \<comment> \<open>an agent on \<open>tiny_net\<close> with an empty buffer, its generator in state \<open>g\<close>\<close>
  "tiny_agent g =
     \<lparr>state_size = 1, action_size = 2, qnetwork_local = tiny_net, qnetwork_target = tiny_net,
      optimizer = (), memory = fst (ReplayBuffer_init scripted_random 2 BUFFER_SIZE BATCH_SIZE 0),
      t_step = 0, py_rng = g, trace = []\<rparr>"

definition tiny_transition :: experience where
  "tiny_transition =
     \<lparr>state = [Fin 1], action = 0, reward = Fin 1, next_state = [Fin 1], is_done = False\<rparr>"

definition tiny_batch :: batch where
  \<comment> \<open>the batch of \<open>tiny_transition\<close> alone\<close>
  "tiny_batch =
     \<lparr>states = [[Fin 1]], actions = [0], rewards = [Fin 1], next_states = [[Fin 1]],
      dones = [Fin 0]\<rparr>"

definition synthetic_transition :: experience where
  \<comment> \<open>a transition for an agent of \<open>state_size = 4\<close> and \<open>action_size = 2\<close>\<close>
  "synthetic_transition =
     \<lparr>state = [Fin 0, Fin 0, Fin 0, Fin 0], action = 1, reward = Fin 1,
      next_state = [Fin 0, Fin 0, Fin 0, Fin 0], is_done = False\<rparr>"



text \<open>
  \<open>tiny_agent\<close> with 64 transitions in its buffer, three calls of \<^verbatim>\<open>step\<close> after the last
  aligned one: the next call is aligned and finds 65 transitions.
\<close>

definition loaded_agent :: "(real list \<times> nat list, unit) agent" where
  "loaded_agent =
     (tiny_agent ([], []))\<lparr>memory := add_all (memory (tiny_agent ([], []))) (replicate 64 tiny_transition),
        t_step := 3\<rparr>"

section \<open>Shapes and finiteness of parameters\<close>





definition is_finite :: "fl \<Rightarrow> bool" where
  "is_finite x = (case x of Fin a \<Rightarrow> True | _ \<Rightarrow> False)"

definition the_real :: "fl \<Rightarrow> real" where
  \<comment> \<open>the number a finite value stands for\<close>
  "the_real x = (case x of Fin a \<Rightarrow> a | _ \<Rightarrow> 0)"

section \<open>Properties\<close>

subsection \<open>Auxiliary facts\<close>


lemma deque_append_items:
  assumes that: "length (items d) \<le> maxlen d"
  shows "items (deque_append d x) = drop (length (items d) + 1 - maxlen d) (items d @ [x])"
proof (cases "maxlen d < length (items d) + 1")
  case True
  then have "length (items d) + 1 - maxlen d = 1" using that by simp
  then show ?thesis using True by (cases "items d") (simp_all add: deque_append_def Let_def)
next
  case False
  then show ?thesis by (simp add: deque_append_def Let_def)
qed

lemma maxlen_deque_append [simp]: "maxlen (deque_append d x) = maxlen d"
  by (simp add: deque_append_def Let_def)

lemma length_deque_append:
  "length (items d) \<le> maxlen d \<Longrightarrow> length (items (deque_append d x)) \<le> maxlen d"
  by (auto simp: deque_append_def Let_def)

lemma maxlen_add [simp]: "maxlen (buf_memory (add b s a r s' d)) = maxlen (buf_memory b)"
  by (simp add: add_def Let_def)

lemma batch_size_add [simp]: "batch_size (add b s a r s' d) = batch_size b"
  by (simp add: add_def Let_def)

lemma add_all_items:
  "length (items (buf_memory b)) \<le> maxlen (buf_memory b) \<Longrightarrow>
     items (buf_memory (add_all b es)) =
       drop (length (items (buf_memory b)) + length es - maxlen (buf_memory b))
         (items (buf_memory b) @ es)"
proof (induction es arbitrary: b)
  case Nil
  then show ?case by simp
next
  case (Cons e es)
  let ?e = "\<lparr>state = state e, action = action e, reward = reward e,
              next_state = next_state e, is_done = is_done e\<rparr>"
  let ?b = "add b (state e) (action e) (reward e) (next_state e) (is_done e)"
  have e: "?e = e" by simp
  have it: "items (buf_memory ?b) =
      drop (length (items (buf_memory b)) + 1 - maxlen (buf_memory b)) (items (buf_memory b) @ [e])"
    using Cons.prems by (simp add: add_def Let_def deque_append_items e)
  have le: "length (items (buf_memory ?b)) \<le> maxlen (buf_memory ?b)"
    using Cons.prems by (simp add: add_def Let_def length_deque_append)
  show ?case
  proof (cases "length (items (buf_memory b)) < maxlen (buf_memory b)")
    case True
    then have "items (buf_memory ?b) = items (buf_memory b) @ [e]"
      using it by simp
    then show ?thesis using Cons.IH [OF le] by simp
  next
    case False
    then have eq: "length (items (buf_memory b)) = maxlen (buf_memory b)"
      using Cons.prems by simp
    have a: "items (buf_memory ?b) @ es = drop 1 (items (buf_memory b) @ e # es)"
      using it eq by (cases "items (buf_memory b)") auto
    have len: "length (items (buf_memory ?b)) = maxlen (buf_memory b)"
      using it eq by simp
    have "items (buf_memory (add_all ?b es)) =
        drop (length es) (drop 1 (items (buf_memory b) @ e # es))"
      using Cons.IH [OF le] a len by simp
    then show ?thesis using eq by (simp del: drop_append)
  qed
qed

lemma qnetwork_init_fst:
  "fst (QNetwork_init T ssz asz seed tg) = fst (QNetwork_init T ssz asz seed tg')"
  by (simp add: QNetwork_init_def)

lemma forward_tiny: "forward tiny_net [Fin x] = Inr [Fin 1, Fin 0]"
  by (simp add: forward_def tiny_net_def unit_linear_def linear_apply_def dot_def leaky_relu_def)

lemma step_eq:
  "step R T ag s a r s' d =
     (let ag' = ag\<lparr>memory := add (memory ag) s a r s' d,
                    t_step := (t_step ag + 1) mod UPDATE_EVERY\<rparr>
      in if t_step ag' = 0 \<and> BATCH_SIZE < buffer_len (memory ag')
         then (case sample R (memory ag') (py_rng ag') of
                 Inl e \<Rightarrow> Inl e
               | Inr (b, g) \<Rightarrow>
                   learn T (ag'\<lparr>py_rng := g, trace := trace ag' @ [Ev_sample]\<rparr>) b GAMMA)
         else Inr ag')"
  by (simp add: step_def Let_def split: sum.split prod.split)


lemma epoch_trace:
  "epoch T b y ag = Inr ag' \<Longrightarrow> trace ag' = trace ag @ [Ev_gradient_step y, Ev_soft_update]"
  by (auto simp: epoch_def Let_def split: sum.splits prod.splits)

lemma epochs_trace:
  "epochs T b y n ag = Inr ag' \<Longrightarrow>
     trace ag' = trace ag @ concat (replicate n [Ev_gradient_step y, Ev_soft_update])"
proof (induction n arbitrary: ag)
  case 0
  then show ?case by simp
next
  case (Suc n)
  then obtain ag1 where e: "epoch T b y ag = Inr ag1" and r: "epochs T b y n ag1 = Inr ag'"
    by (auto split: sum.splits)
  show ?case using Suc.IH [OF r] epoch_trace [OF e] by simp
qed

lemma learn_trace:
  "learn T ag b gamma = Inr ag' \<Longrightarrow>
     \<exists>y. compute_targets (qnetwork_target ag) b gamma = Inr y \<and>
       trace ag' = trace ag @ [Ev_learn, Ev_targets y]
         @ concat (replicate 10 [Ev_gradient_step y, Ev_soft_update])"
  by (auto simp: learn_def num_epoches_def split: sum.splits dest!: epochs_trace)

lemma mapE_Inl: "mapE f xs = Inl e \<Longrightarrow> \<exists>x. f x = Inl e"
  by (induction xs) (auto split: sum.splits)

lemma forward_not_ValueError: "forward q x \<noteq> Inl (ValueError m)"
  by (auto simp: forward_def linear_apply_def split: sum.splits)

lemma bcast2_not_ValueError: "bcast2 f xs ys \<noteq> Inl (ValueError m)"
  by (simp add: bcast2_def)

lemma compute_targets_not_ValueError: "compute_targets q b gamma \<noteq> Inl (ValueError m)"
  by (auto simp: compute_targets_def forward_batch_def td_target_def row_max_def
      bcast2_not_ValueError forward_not_ValueError
      split: sum.splits list.splits dest!: mapE_Inl)

lemma loss_of_not_ValueError: "loss_of b y q \<noteq> Inl (ValueError m)"
  by (auto simp: loss_of_def forward_batch_def gather_def gather_row_def SmoothL1Loss_def
      bcast2_not_ValueError forward_not_ValueError
      split: sum.splits if_splits prod.splits dest!: mapE_Inl)

lemma soft_update_not_ValueError: "soft_update l t tau \<noteq> Inl (ValueError m)"
  by (auto simp: soft_update_def soft_update_layer_def split: sum.splits if_splits)

lemma epoch_not_ValueError: "epoch T b y ag \<noteq> Inl (ValueError m)"
  by (auto simp: epoch_def Let_def loss_of_not_ValueError soft_update_not_ValueError
      split: sum.splits prod.splits)

lemma epochs_not_ValueError: "epochs T b y n ag \<noteq> Inl (ValueError m)"
  by (induction n arbitrary: ag) (auto simp: epoch_not_ValueError split: sum.splits)

lemma learn_not_ValueError: "learn T ag b gamma \<noteq> Inl (ValueError m)"
  by (auto simp: learn_def compute_targets_not_ValueError epochs_not_ValueError
      split: sum.splits)

lemma sample_short:
  "buffer_len b < batch_size b \<Longrightarrow>
     sample R b g = Inl (ValueError ''Sample larger than population or is negative'')"
  by (simp add: sample_def buffer_len_def Let_def)

lemma sample_enough:
  "batch_size b \<le> buffer_len b \<Longrightarrow>
     sample R b g \<noteq> Inl (ValueError ''Sample larger than population or is negative'')"
  by (auto simp: sample_def buffer_len_def Let_def vstack_def vstack_scalars_def
      split: sum.splits prod.splits list.splits if_splits)

lemma step_never_insufficient:
  assumes bs: "batch_size (memory ag) = BATCH_SIZE"
  shows "step R T ag s a r s' d \<noteq> Inl (ValueError ''Sample larger than population or is negative'')"
proof -
  let ?m = "add (memory ag) s a r s' d"
  have "sample R ?m g \<noteq> Inl (ValueError ''Sample larger than population or is negative'')"
    if "BATCH_SIZE < buffer_len ?m" for g
    using that bs by (intro sample_enough) simp
  then show ?thesis
    by (auto simp: step_eq Let_def learn_not_ValueError split: sum.splits prod.splits)
qed

lemma step_no_learn:
  "\<not> ((t_step ag + 1) mod UPDATE_EVERY = 0 \<and> BATCH_SIZE < buffer_len (add (memory ag) s a r s' d)) \<Longrightarrow>
     step R T ag s a r s' d =
       Inr (ag\<lparr>memory := add (memory ag) s a r s' d, t_step := (t_step ag + 1) mod UPDATE_EVERY\<rparr>)"
  by (auto simp: step_eq Let_def)

lemma buffer_len_add:
  "buffer_len b < maxlen (buf_memory b) \<Longrightarrow> buffer_len (add b s a r s' d) = buffer_len b + 1"
  by (simp add: buffer_len_def add_def Let_def deque_append_def)

lemma add_all_snoc:
  "add_all b (es @ [e]) = add (add_all b es) (state e) (action e) (reward e) (next_state e) (is_done e)"
  by (induction es arbitrary: b) simp_all

lemma steps_snoc:
  "steps R T ag (es @ [e]) =
     (case steps R T ag es of
        Inl x \<Rightarrow> Inl x
      | Inr ag' \<Rightarrow> step R T ag' (state e) (action e) (reward e) (next_state e) (is_done e))"
  by (induction es arbitrary: ag) (auto split: sum.splits)

lemma steps_before_learning:
  assumes "items (buf_memory (memory ag)) = []" and "t_step ag = 0"
    and "maxlen (buf_memory (memory ag)) = BUFFER_SIZE" and "length es < 68"
  shows "steps R T ag es =
           Inr (ag\<lparr>memory := add_all (memory ag) es, t_step := length es mod UPDATE_EVERY\<rparr>)
         \<and> buffer_len (add_all (memory ag) es) = length es"
  using assms(4)
proof (induction es rule: rev_induct)
  case Nil
  then show ?case using assms(1,2) by (simp add: buffer_len_def)
next
  case (snoc e es)
  let ?ag = "ag\<lparr>memory := add_all (memory ag) es, t_step := length es mod UPDATE_EVERY\<rparr>"
  have ih: "steps R T ag es = Inr ?ag" and len: "buffer_len (add_all (memory ag) es) = length es"
    using snoc by simp_all
  have ml: "maxlen (buf_memory (add_all (memory ag) es)) = BUFFER_SIZE"
    using assms(3) by (induction es arbitrary: ag rule: rev_induct) (simp_all add: add_all_snoc)
  have len': "buffer_len (add (add_all (memory ag) es) (state e) (action e) (reward e) (next_state e) (is_done e))
      = length es + 1"
    using len ml snoc.prems by (simp add: buffer_len_add BUFFER_SIZE_def)
  have nogate: "\<not> ((t_step ?ag + 1) mod UPDATE_EVERY = 0 \<and>
      BATCH_SIZE < buffer_len (add (memory ?ag) (state e) (action e) (reward e) (next_state e) (is_done e)))"
    using len' snoc.prems by (auto simp: UPDATE_EVERY_def BATCH_SIZE_def) presburger
  show ?case
    using step_no_learn [OF nogate] ih len'
    by (simp add: steps_snoc add_all_snoc mod_Suc_eq)
qed

lemma loaded_items:
  "items (buf_memory (memory loaded_agent)) = replicate 64 tiny_transition"
  by (simp add: loaded_agent_def tiny_agent_def ReplayBuffer_init_def add_all_items BUFFER_SIZE_def BATCH_SIZE_def)


lemma add_all_maxlen [simp]: "maxlen (buf_memory (add_all b es)) = maxlen (buf_memory b)"
  by (induction es arbitrary: b) simp_all

lemma add_all_batch_size [simp]: "batch_size (add_all b es) = batch_size b"
  by (induction es arbitrary: b) simp_all

lemma mapE_replicate: "f x = Inr y \<Longrightarrow> mapE f (replicate n x) = Inr (replicate n y)"
  by (induction n) simp_all

lemma forward_batch_uniform:
  "forward_batch tiny_net (replicate n [Fin 1]) = Inr (replicate n [Fin 1, Fin 0])"
  unfolding forward_batch_def
  by (rule mapE_replicate) (rule forward_tiny)

lemma replicate_65: "replicate 64 x @ [x] = replicate 65 x"
  by (simp add: replicate_append_same flip: replicate_Suc)

lemma vstack_replicate: "0 < n \<Longrightarrow> vstack (replicate n x) = Inr (replicate n x)"
  by (cases n) (simp_all add: vstack_def list_all_iff)

lemma vstack_scalars_replicate: "0 < n \<Longrightarrow> vstack_scalars (replicate n x) = Inr (replicate n x)"
  by (cases n) (simp_all add: vstack_scalars_def)

lemma soft_update_tiny: "soft_update tiny_net tiny_net TAU = Inr (tiny_net, tiny_net)"
  by (simp add: soft_update_def soft_update_layer_def fits_def blend_mat_def blend_vec_def
      blend_def expand_def tiny_net_def unit_linear_def TAU_def fsub_def)

lemma compute_targets_uniform:
  "compute_targets tiny_net
     \<lparr>states = replicate n [Fin 1], actions = replicate n 0, rewards = replicate n (Fin 1),
      next_states = replicate n [Fin 1], dones = replicate n (Fin 0)\<rparr> GAMMA
   = Inr (replicate n (Fin (199 / 100)))"
proof -
  have "row_max [Fin 1, Fin 0] = Inr (Fin 1)"
    by (simp add: row_max_def fmax2_def)
  then show ?thesis
    by (simp add: compute_targets_def forward_batch_uniform
        mapE_replicate td_target_def bcast2_def GAMMA_def fsub_def)
qed

lemma loss_of_uniform:
  "\<exists>v. loss_of
     \<lparr>states = replicate n [Fin 1], actions = replicate n 0, rewards = replicate n (Fin 1),
      next_states = replicate n [Fin 1], dones = replicate n (Fin 0)\<rparr>
     (replicate n y) tiny_net = Inr v"
proof -
  have "gather_row ([Fin 1, Fin 0], 0) = Inr (Fin 1)"
    by (simp add: gather_row_def)
  then show ?thesis
    by (simp add: loss_of_def forward_batch_uniform
        gather_def mapE_replicate SmoothL1Loss_def bcast2_def)
qed

lemma epoch_uniform:
  assumes "qnetwork_local ag = tiny_net" and "qnetwork_target ag = tiny_net"
  shows "epoch plain_torch
     \<lparr>states = replicate n [Fin 1], actions = replicate n 0, rewards = replicate n (Fin 1),
      next_states = replicate n [Fin 1], dones = replicate n (Fin 0)\<rparr>
     (replicate n y) ag
   = Inr (ag\<lparr>qnetwork_local := tiny_net, optimizer := optimizer ag,
             trace := trace ag @ [Ev_gradient_step (replicate n y)],
             qnetwork_local := tiny_net, qnetwork_target := tiny_net,
             trace := (trace ag @ [Ev_gradient_step (replicate n y)]) @ [Ev_soft_update]\<rparr>)"
  using loss_of_uniform [of n y] assms
  by (auto simp: epoch_def Let_def plain_torch_def soft_update_tiny)

lemma epochs_uniform:
  assumes "qnetwork_local ag = tiny_net" and "qnetwork_target ag = tiny_net"
  shows "\<exists>ag'. epochs plain_torch
     \<lparr>states = replicate n [Fin 1], actions = replicate n 0, rewards = replicate n (Fin 1),
      next_states = replicate n [Fin 1], dones = replicate n (Fin 0)\<rparr>
     (replicate n y) k ag = Inr ag'"
  using assms
proof (induction k arbitrary: ag)
  case 0
  then show ?case by simp
next
  case (Suc k)
  show ?case
    by (simp add: epoch_uniform [OF Suc.prems] Suc.IH)
qed

lemma learn_uniform:
  assumes "qnetwork_local ag = tiny_net" and "qnetwork_target ag = tiny_net"
  shows "\<exists>ag'. learn plain_torch ag
     \<lparr>states = replicate n [Fin 1], actions = replicate n 0, rewards = replicate n (Fin 1),
      next_states = replicate n [Fin 1], dones = replicate n (Fin 0)\<rparr> GAMMA = Inr ag'"
  using assms by (simp add: learn_def compute_targets_uniform epochs_uniform)

lemma loaded_step_ok:
  "\<exists>ag''. step scripted_random plain_torch loaded_agent [Fin 1] 0 (Fin 1) [Fin 1] False = Inr ag''"
proof -
  let ?m = "add (memory loaded_agent) [Fin 1] 0 (Fin 1) [Fin 1] False"
  have ml: "maxlen (buf_memory (memory loaded_agent)) = BUFFER_SIZE"
    and bs: "batch_size (memory loaded_agent) = 64"
    by (simp_all add: loaded_agent_def tiny_agent_def ReplayBuffer_init_def BATCH_SIZE_def)
  have it: "items (buf_memory ?m) = replicate 65 tiny_transition"
    using ml by (simp add: add_def Let_def deque_append_def loaded_items BUFFER_SIZE_def
        replicate_65 tiny_transition_def)
  have sm: "sample scripted_random ?m g =
      Inr (\<lparr>states = replicate 64 [Fin 1], actions = replicate 64 0, rewards = replicate 64 (Fin 1),
            next_states = replicate 64 [Fin 1], dones = replicate 64 (Fin 0)\<rparr>, g)" for g
    using it bs by (simp add: sample_def Let_def scripted_random_def tiny_transition_def
        vstack_replicate vstack_scalars_replicate)
  have nets: "qnetwork_local loaded_agent = tiny_net" "qnetwork_target loaded_agent = tiny_net"
    and ts: "t_step loaded_agent = 3"
    by (simp_all add: loaded_agent_def tiny_agent_def)
  have bl: "buffer_len ?m = 65"
    using it by (simp add: buffer_len_def)
  have "\<exists>ag''. learn plain_torch
      (loaded_agent\<lparr>memory := ?m, t_step := 0, trace := trace loaded_agent @ [Ev_sample]\<rparr>)
      \<lparr>states = replicate 64 [Fin 1], actions = replicate 64 0, rewards = replicate 64 (Fin 1),
        next_states = replicate 64 [Fin 1], dones = replicate 64 (Fin 0)\<rparr> GAMMA = Inr ag''"
    by (rule learn_uniform) (simp_all add: nets)
  then show ?thesis
    by (simp add: step_eq Let_def sm ts bl UPDATE_EVERY_def BATCH_SIZE_def)
qed

lemma loaded_gate:
  "(t_step loaded_agent + 1) mod UPDATE_EVERY = 0
   \<and> BATCH_SIZE < buffer_len (add (memory loaded_agent) [Fin 1] 0 (Fin 1) [Fin 1] False)"
proof -
  have ml: "maxlen (buf_memory (memory loaded_agent)) = BUFFER_SIZE"
    by (simp add: loaded_agent_def tiny_agent_def ReplayBuffer_init_def)
  have bl: "buffer_len (memory loaded_agent) = 64"
    by (simp add: buffer_len_def loaded_items)
  have "buffer_len (add (memory loaded_agent) [Fin 1] 0 (Fin 1) [Fin 1] False)
      = buffer_len (memory loaded_agent) + 1"
    by (rule buffer_len_add) (simp add: bl ml BUFFER_SIZE_def)
  then have "buffer_len (add (memory loaded_agent) [Fin 1] 0 (Fin 1) [Fin 1] False) = 65"
    using bl by simp
  moreover have "t_step loaded_agent = 3"
    by (simp add: loaded_agent_def)
  ultimately show ?thesis by (simp add: UPDATE_EVERY_def BATCH_SIZE_def)
qed

lemma soft_update_local:
  "soft_update l t tau = Inr (l', t') \<Longrightarrow> l' = l"
  by (auto simp: soft_update_def split: sum.splits)

lemma epoch_effect:
  "epoch T b y ag = Inr ag' \<Longrightarrow>
     (optimizer ag', qnetwork_local ag') = Adam_step T (optimizer ag) (qnetwork_local ag) (loss_of b y)
     \<and> soft_update (qnetwork_local ag') (qnetwork_target ag) TAU
         = Inr (qnetwork_local ag', qnetwork_target ag')"
proof -
  assume e: "epoch T b y ag = Inr ag'"
  obtain opt q where a: "Adam_step T (optimizer ag) (qnetwork_local ag) (loss_of b y) = (opt, q)"
    by (cases "Adam_step T (optimizer ag) (qnetwork_local ag) (loss_of b y)")
  from e a obtain l t where su: "soft_update q (qnetwork_target ag) TAU = Inr (l, t)"
    and ag': "ag' = ag\<lparr>optimizer := opt, qnetwork_local := l, qnetwork_target := t,
                    trace := trace ag @ [Ev_gradient_step y, Ev_soft_update]\<rparr>"
    by (auto simp: epoch_def Let_def split: sum.splits prod.splits)
  have "l = q" using su by (rule soft_update_local)
  then show ?thesis using a su ag' by simp
qed

lemma tiny_batch_uniform:
  "tiny_batch = \<lparr>states = replicate 1 [Fin 1], actions = replicate 1 0, rewards = replicate 1 (Fin 1),
      next_states = replicate 1 [Fin 1], dones = replicate 1 (Fin 0)\<rparr>"
  by (simp add: tiny_batch_def)

lemma act_shape:
  "length s \<noteq> in_features (fc1 (qnetwork_local ag)) \<Longrightarrow>
     act R ag s eps = Inl (RuntimeError ''mat1 and mat2 shapes cannot be multiplied'')"
  by (simp add: act_def forward_batch_def forward_def linear_apply_def)

lemma fresh_agent:
  "items (buf_memory (memory (fst (Agent_init R T ssz asz seed tg)))) = []"
  "t_step (fst (Agent_init R T ssz asz seed tg)) = 0"
  "maxlen (buf_memory (memory (fst (Agent_init R T ssz asz seed tg)))) = BUFFER_SIZE"
  "batch_size (memory (fst (Agent_init R T ssz asz seed tg))) = BATCH_SIZE"
  "trace (fst (Agent_init R T ssz asz seed tg)) = []"
  by (simp_all add: Agent_init_def Let_def split_beta ReplayBuffer_init_def)

lemma step_outcome:
  assumes ok: "step R T ag s a r s' d = Inr ag''"
  shows "if (t_step ag + 1) mod UPDATE_EVERY = 0
              \<and> BATCH_SIZE < buffer_len (add (memory ag) s a r s' d)
         then \<exists>y. trace ag'' = trace ag @ [Ev_sample, Ev_learn, Ev_targets y]
                      @ concat (replicate 10 [Ev_gradient_step y, Ev_soft_update])
         else ag'' = ag\<lparr>memory := add (memory ag) s a r s' d,
                         t_step := (t_step ag + 1) mod UPDATE_EVERY\<rparr>"
proof (cases "(t_step ag + 1) mod UPDATE_EVERY = 0
              \<and> BATCH_SIZE < buffer_len (add (memory ag) s a r s' d)")
  case True
  then obtain b g where
    l: "learn T (ag\<lparr>memory := add (memory ag) s a r s' d,
                  t_step := (t_step ag + 1) mod UPDATE_EVERY, py_rng := g,
                  trace := trace ag @ [Ev_sample]\<rparr>) b GAMMA = Inr ag''"
    using ok by (auto simp: step_eq Let_def split: sum.splits prod.splits)
  from learn_trace [OF l] show ?thesis using True by auto
next
  case False
  then show ?thesis using ok step_no_learn [OF False, of R T] by auto
qed







lemma is_finite_Fin: "is_finite x \<Longrightarrow> x = Fin (the_real x)"
  by (cases x) (simp_all add: is_finite_def the_real_def)



























subsection \<open>The target of a terminal transition\<close>





subsection \<open>The gate of \<^verbatim>\<open>step\<close>\<close>

text \<open>
  C2. A call of \<^verbatim>\<open>step\<close> stores the transition and advances the counter modulo
  \<open>UPDATE_EVERY\<close>. It samples and learns if and only if the counter is then 0 and the
  buffer holds more than \<open>BATCH_SIZE\<close> transitions. A call that returns has, on such a
  step, recorded one sample and one call of \<^verbatim>\<open>learn\<close>; on any other step it returns
  without error, and nothing but the buffer and the counter has changed.
\<close>

theorem step_learning_gate:
  "step R T ag s a r s' d =
     (let ag' = ag\<lparr>memory := add (memory ag) s a r s' d,
                    t_step := (t_step ag + 1) mod UPDATE_EVERY\<rparr>
      in if t_step ag' = 0 \<and> BATCH_SIZE < buffer_len (memory ag')
         then (case sample R (memory ag') (py_rng ag') of
                 Inl e \<Rightarrow> Inl e
               | Inr (b, g) \<Rightarrow>
                   learn T (ag'\<lparr>py_rng := g, trace := trace ag' @ [Ev_sample]\<rparr>) b GAMMA)
         else Inr ag')
   \<and> (\<forall>ag''. step R T ag s a r s' d = Inr ag'' \<longrightarrow>
        (if (t_step ag + 1) mod UPDATE_EVERY = 0
              \<and> BATCH_SIZE < buffer_len (add (memory ag) s a r s' d)
         then \<exists>y. trace ag'' = trace ag @ [Ev_sample, Ev_learn, Ev_targets y]
                      @ concat (replicate 10 [Ev_gradient_step y, Ev_soft_update])
         else ag'' = ag\<lparr>memory := add (memory ag) s a r s' d,
                         t_step := (t_step ag + 1) mod UPDATE_EVERY\<rparr>))"
  using step_eq [of R T ag s a r s' d] step_outcome [of R T ag s a r s' d]
  by blast

theorem step_learning_gate_witness:
  "\<exists>ag''. step scripted_random plain_torch loaded_agent [Fin 1] 0 (Fin 1) [Fin 1] False = Inr ag''
     \<and> (\<exists>y. trace ag'' = [Ev_sample, Ev_learn, Ev_targets y]
                @ concat (replicate 10 [Ev_gradient_step y, Ev_soft_update]))"
proof -
  obtain ag'' where
    ok: "step scripted_random plain_torch loaded_agent [Fin 1] 0 (Fin 1) [Fin 1] False = Inr ag''"
    using loaded_step_ok by blast
  have "trace loaded_agent = []"
    by (simp add: loaded_agent_def tiny_agent_def)
  then have "\<exists>y. trace ag'' = [Ev_sample, Ev_learn, Ev_targets y]
                @ concat (replicate 10 [Ev_gradient_step y, Ev_soft_update])"
    using step_learning_gate [of scripted_random plain_torch loaded_agent "[Fin 1]" 0 "Fin 1"
        "[Fin 1]" False, THEN conjunct2, THEN spec, THEN mp, OF ok] loaded_gate
    by simp
  then show ?thesis using ok by blast
qed


subsection \<open>The replay buffer\<close>

text \<open>
  C3. For every sequence of \<^verbatim>\<open>add\<close> calls on a new buffer of capacity \<open>n\<close>, the occupancy
  never exceeds \<open>n\<close> and the contents are the most recent \<open>n\<close> transitions in insertion
  order; a further \<^verbatim>\<open>add\<close> on a buffer that has reached capacity drops the oldest
  transition and appends the new one.
\<close>

theorem replay_buffer_keeps_most_recent:
  "buffer_len (add_all (fst (ReplayBuffer_init R asz n bsz seed)) es) \<le> n
   \<and> items (buf_memory (add_all (fst (ReplayBuffer_init R asz n bsz seed)) es)) = drop (length es - n) es
   \<and> items (buf_memory (add (add_all (fst (ReplayBuffer_init R asz n bsz seed)) es) s a r s' d)) =
       (if n \<le> length es
        then tl (items (buf_memory (add_all (fst (ReplayBuffer_init R asz n bsz seed)) es))
               @ [\<lparr>state = s, action = a, reward = r, next_state = s', is_done = d\<rparr>])
        else items (buf_memory (add_all (fst (ReplayBuffer_init R asz n bsz seed)) es))
               @ [\<lparr>state = s, action = a, reward = r, next_state = s', is_done = d\<rparr>])"
proof -
  let ?b = "fst (ReplayBuffer_init R asz n bsz seed)"
  have e: "items (buf_memory ?b) = []" and m: "maxlen (buf_memory ?b) = n"
    by (simp_all add: ReplayBuffer_init_def)
  have it: "items (buf_memory (add_all ?b es)) = drop (length es - n) es"
    using add_all_items [of ?b es] e m by simp
  have ml: "maxlen (buf_memory (add_all ?b es)) = n"
    using m by (induction es rule: rev_induct) (simp_all add: add_all_snoc)
  have len: "buffer_len (add_all ?b es) \<le> n"
    using it by (simp add: buffer_len_def)
  have "items (buf_memory (add (add_all ?b es) s a r s' d)) =
       (if n \<le> length es
        then tl (items (buf_memory (add_all ?b es)) @ [\<lparr>state = s, action = a, reward = r, next_state = s', is_done = d\<rparr>])
        else items (buf_memory (add_all ?b es)) @ [\<lparr>state = s, action = a, reward = r, next_state = s', is_done = d\<rparr>])"
    using ml it by (auto simp: add_def Let_def deque_append_def)
  then show ?thesis using it len by simp
qed


subsection \<open>Sampling too few transitions\<close>

text \<open>
  C4 (amended). \<^verbatim>\<open>sample\<close> on a buffer that holds fewer transitions than its batch size
  raises the \<^verbatim>\<open>ValueError\<close> of \<^verbatim>\<open>random.sample\<close>; \<^verbatim>\<open>step\<close>, on an agent whose buffer has
  the batch size \<open>BATCH_SIZE\<close>, never raises it.
\<close>

theorem sample_insufficient_data:
  "(buffer_len b < batch_size b \<longrightarrow>
      sample R b g = Inl (ValueError ''Sample larger than population or is negative''))
   \<and> (batch_size (memory ag) = BATCH_SIZE \<longrightarrow>
      step R T ag s a r s' d \<noteq> Inl (ValueError ''Sample larger than population or is negative''))"
  by (simp add: sample_short step_never_insufficient)

theorem sample_insufficient_data_witness:
  "sample scripted_random
     (add (fst (ReplayBuffer_init scripted_random 2 BUFFER_SIZE BATCH_SIZE 0)) [Fin 1] 0 (Fin 1) [Fin 1] False)
     ([], [])
     = Inl (ValueError ''Sample larger than population or is negative'')
   \<and> step scripted_random plain_torch (tiny_agent ([], [])) [Fin 1] 0 (Fin 1) [Fin 1] False
       \<noteq> Inl (ValueError ''Sample larger than population or is negative'')"
proof -
  have "buffer_len (add (fst (ReplayBuffer_init scripted_random 2 BUFFER_SIZE BATCH_SIZE 0)) [Fin 1] 0 (Fin 1) [Fin 1] False)
      < batch_size (add (fst (ReplayBuffer_init scripted_random 2 BUFFER_SIZE BATCH_SIZE 0)) [Fin 1] 0 (Fin 1) [Fin 1] False)"
    by (simp add: buffer_len_def add_def deque_append_def ReplayBuffer_init_def BATCH_SIZE_def BUFFER_SIZE_def)
  moreover have "batch_size (memory (tiny_agent ([], []))) = BATCH_SIZE"
    by (simp add: tiny_agent_def ReplayBuffer_init_def)
  ultimately show ?thesis
    using sample_insufficient_data [of "add (fst (ReplayBuffer_init scripted_random 2 BUFFER_SIZE BATCH_SIZE 0)) [Fin 1] 0 (Fin 1) [Fin 1] False"
        scripted_random "([], [])" "tiny_agent ([], [])" plain_torch "[Fin 1]" 0 "Fin 1" "[Fin 1]" False]
    by blast
qed

text \<open>
  The exception is Python's \<^verbatim>\<open>ValueError\<close>: the module defines no exception class of its
  own, and \<^verbatim>\<open>sample\<close> checks nothing before it calls \<^verbatim>\<open>random.sample\<close>.
\<close>

theorem sample_empty_buffer_ValueError:
  "sample scripted_random (fst (ReplayBuffer_init scripted_random 2 BUFFER_SIZE BATCH_SIZE 0)) ([], [])
     = Inl (ValueError ''Sample larger than population or is negative'')"
  by (simp add: sample_def ReplayBuffer_init_def BATCH_SIZE_def)


subsection \<open>The soft update\<close>





subsection \<open>The epochs of \<^verbatim>\<open>learn\<close>\<close>

text \<open>
  C6. A call of \<^verbatim>\<open>learn\<close> that returns has computed the targets \<open>y\<close> once, from the
  target network as it was at the call, and has then run the loop body 10 times on the
  one batch and those targets: each run is one optimizer step on the local network
  followed by one soft update of the target network towards it.
\<close>

theorem learn_ten_epochs:
  "learn T ag b gamma = Inr ag' \<Longrightarrow>
     (\<exists>y. compute_targets (qnetwork_target ag) b gamma = Inr y
        \<and> epochs T b y 10 (ag\<lparr>trace := trace ag @ [Ev_learn, Ev_targets y]\<rparr>) = Inr ag'
        \<and> trace ag' = trace ag @ [Ev_learn, Ev_targets y]
             @ concat (replicate 10 [Ev_gradient_step y, Ev_soft_update])
        \<and> (\<forall>a a'. epoch T b y a = Inr a' \<longrightarrow>
             (optimizer a', qnetwork_local a')
               = Adam_step T (optimizer a) (qnetwork_local a) (loss_of b y)
             \<and> soft_update (qnetwork_local a') (qnetwork_target a) TAU
                 = Inr (qnetwork_local a', qnetwork_target a')
             \<and> trace a' = trace a @ [Ev_gradient_step y, Ev_soft_update]))"
proof -
  assume l: "learn T ag b gamma = Inr ag'"
  then obtain y where y: "compute_targets (qnetwork_target ag) b gamma = Inr y"
    and e: "epochs T b y 10 (ag\<lparr>trace := trace ag @ [Ev_learn, Ev_targets y]\<rparr>) = Inr ag'"
    by (auto simp: learn_def num_epoches_def split: sum.splits)
  have "trace ag' = trace ag @ [Ev_learn, Ev_targets y]
             @ concat (replicate 10 [Ev_gradient_step y, Ev_soft_update])"
    using epochs_trace [OF e] by simp
  then show ?thesis using y e epoch_effect epoch_trace by blast
qed

theorem learn_ten_epochs_witness:
  "\<exists>ag'. learn plain_torch (tiny_agent ([], [])) tiny_batch GAMMA = Inr ag'
     \<and> compute_targets tiny_net tiny_batch GAMMA = Inr [Fin (199 / 100)]
     \<and> trace ag' = [Ev_learn, Ev_targets [Fin (199 / 100)]]
          @ concat (replicate 10 [Ev_gradient_step [Fin (199 / 100)], Ev_soft_update])"
proof -
  have nets: "qnetwork_local (tiny_agent ([], [])) = tiny_net"
    "qnetwork_target (tiny_agent ([], [])) = tiny_net" and tr: "trace (tiny_agent ([], [])) = []"
    by (simp_all add: tiny_agent_def)
  obtain ag' where l: "learn plain_torch (tiny_agent ([], [])) tiny_batch GAMMA = Inr ag'"
    using learn_uniform [OF nets, of 1] unfolding tiny_batch_uniform by blast
  have y: "compute_targets tiny_net tiny_batch GAMMA = Inr [Fin (199 / 100)]"
    using compute_targets_uniform [of 1] unfolding tiny_batch_uniform by simp
  show ?thesis
    using learn_ten_epochs [OF l] l y nets tr by auto
qed


subsection \<open>Dimensions of the inputs\<close>

text \<open>
  C7 (amended). Neither \<^verbatim>\<open>step\<close> nor \<^verbatim>\<open>act\<close> compares its inputs with \<open>state_size\<close> or
  \<open>action_size\<close>. \<^verbatim>\<open>step\<close> stores the transition as it is given, whatever the lengths
  of its states, and on a step that does not learn returns without error; \<^verbatim>\<open>act\<close>
  raises the \<^verbatim>\<open>RuntimeError\<close> of the first layer of the local network when the length of
  the state differs from the layer's input width.
\<close>

theorem no_dimension_check:
  "(\<not> ((t_step ag + 1) mod UPDATE_EVERY = 0
         \<and> BATCH_SIZE < buffer_len (add (memory ag) s a r s' d)) \<longrightarrow>
      step R T ag s a r s' d =
        Inr (ag\<lparr>memory := add (memory ag) s a r s' d,
                 t_step := (t_step ag + 1) mod UPDATE_EVERY\<rparr>))
   \<and> (0 < maxlen (buf_memory (memory ag)) \<longrightarrow>
      last (items (buf_memory (add (memory ag) s a r s' d)))
        = \<lparr>state = s, action = a, reward = r, next_state = s', is_done = d\<rparr>)
   \<and> (length s \<noteq> in_features (fc1 (qnetwork_local ag)) \<longrightarrow>
      act R ag s eps = Inl (RuntimeError ''mat1 and mat2 shapes cannot be multiplied''))"
proof (intro conjI impI)
  assume "0 < maxlen (buf_memory (memory ag))"
  then show "last (items (buf_memory (add (memory ag) s a r s' d)))
        = \<lparr>state = s, action = a, reward = r, next_state = s', is_done = d\<rparr>"
    by (cases "items (buf_memory (memory ag))") (auto simp: add_def Let_def deque_append_def)
qed (simp_all add: step_no_learn act_shape)

theorem no_dimension_check_witness:
  "step scripted_random plain_torch (tiny_agent ([], [])) [Fin 1, Fin 2] 0 (Fin 1) [Fin 1, Fin 2] False
     = Inr ((tiny_agent ([], []))\<lparr>memory := add (memory (tiny_agent ([], []))) [Fin 1, Fin 2] 0 (Fin 1) [Fin 1, Fin 2] False,
              t_step := 1\<rparr>)
   \<and> last (items (buf_memory (add (memory (tiny_agent ([], []))) [Fin 1, Fin 2] 0 (Fin 1) [Fin 1, Fin 2] False)))
       = \<lparr>state = [Fin 1, Fin 2], action = 0, reward = Fin 1, next_state = [Fin 1, Fin 2], is_done = False\<rparr>
   \<and> act scripted_random (tiny_agent ([], [])) [Fin 1, Fin 2] (Fin 0)
       = Inl (RuntimeError ''mat1 and mat2 shapes cannot be multiplied'')"
proof -
  have ts: "t_step (tiny_agent ([], [])) = 0"
    and ml: "0 < maxlen (buf_memory (memory (tiny_agent ([], []))))"
    and inf: "length [Fin 1, Fin 2] \<noteq> in_features (fc1 (qnetwork_local (tiny_agent ([], []))))"
    by (simp_all add: tiny_agent_def ReplayBuffer_init_def BUFFER_SIZE_def tiny_net_def unit_linear_def)
  have ng: "\<not> ((t_step (tiny_agent ([], [])) + 1) mod UPDATE_EVERY = 0
         \<and> BATCH_SIZE < buffer_len (add (memory (tiny_agent ([], []))) [Fin 1, Fin 2] 0 (Fin 1) [Fin 1, Fin 2] False))"
    by (simp add: ts UPDATE_EVERY_def)
  show ?thesis
    using no_dimension_check [of "tiny_agent ([], [])" "[Fin 1, Fin 2]" 0 "Fin 1" "[Fin 1, Fin 2]" False
        scripted_random plain_torch "Fin 0"] ng ml inf
    by (simp add: ts UPDATE_EVERY_def)
qed

text \<open>
  A new agent of \<open>state_size = 4\<close> accepts a transition whose states have three
  elements: \<^verbatim>\<open>step\<close> returns and the buffer holds the three-element state.
\<close>

theorem step_accepts_wrong_dimension:
  "map_sum id (\<lambda>ag. map state (items (buf_memory (memory ag))))
     (step scripted_random plain_torch (fst (Agent_init scripted_random plain_torch 4 2 0 ()))
        [Fin 1, Fin 2, Fin 3] 1 (Fin 1) [Fin 1, Fin 2, Fin 3] False)
   = Inr [[Fin 1, Fin 2, Fin 3]]"
proof -
  let ?ag = "fst (Agent_init scripted_random plain_torch 4 2 0 ())"
  have ng: "\<not> ((t_step ?ag + 1) mod UPDATE_EVERY = 0
         \<and> BATCH_SIZE < buffer_len (add (memory ?ag) [Fin 1, Fin 2, Fin 3] 1 (Fin 1) [Fin 1, Fin 2, Fin 3] False))"
    by (simp add: fresh_agent UPDATE_EVERY_def)
  show ?thesis
    by (simp add: step_no_learn [OF ng] add_def Let_def deque_append_def fresh_agent BUFFER_SIZE_def)
qed


subsection \<open>Greedy action selection\<close>

text \<open>With \<open>eps = 0\<close> and a positive draw, \<^verbatim>\<open>act\<close> returns the first maximum of the local
  network's output.\<close>

lemma act_greedy_positive_draw:
  assumes "random_random R (py_rng ag) = (u, g)" and "0 < u"
  shows "act R ag s (Fin 0) =
     (case forward_batch (qnetwork_local ag) [s] of
        Inl e \<Rightarrow> Inl e
      | Inr action_values \<Rightarrow>
          (case argmax (concat action_values) of
             Inl e \<Rightarrow> Inl e
           | Inr a \<Rightarrow> Inr (a, ag\<lparr>py_rng := g\<rparr>)))"
  using assms by (simp add: act_def split: sum.splits)

text \<open>
  C8. Two calls of \<^verbatim>\<open>act\<close> with the same state, \<open>eps = 0\<close> and the same parameters
  should return the same action. \<^verbatim>\<open>act\<close> is greedy when \<^verbatim>\<open>random.random() > eps\<close>, and
  \<^verbatim>\<open>random.random()\<close> can return \<open>0.0\<close>: the first call below draws \<open>0.5\<close> and returns
  the greedy action 0; the second, on the agent the first one left, draws \<open>0.0\<close> and
  returns the index 1 that \<^verbatim>\<open>random.choice\<close> draws.
\<close>

theorem act_greedy_repeat:
  "act scripted_random (tiny_agent ([1 / 2, 0], [1])) [Fin 1] (Fin 0) = Inr (0, tiny_agent ([0], [1]))
   \<and> act scripted_random (tiny_agent ([0], [1])) [Fin 1] (Fin 0) = Inr (1, tiny_agent ([], []))"
  by (simp add: act_def forward_batch_def forward_tiny tiny_agent_def scripted_random_def argmax_def)


subsection \<open>The first learning step\<close>

text \<open>
  C9 (amended). On a new agent, fewer than 68 calls of \<^verbatim>\<open>step\<close> all return without a call
  of \<^verbatim>\<open>learn\<close>; the gate of the next call is open exactly when that call is the 68th,
  the first aligned step that finds more than \<open>BATCH_SIZE\<close> transitions, and a next call
  that returns has called \<^verbatim>\<open>learn\<close> exactly then.
\<close>

theorem learning_starts_at_step_68:
  assumes "length es < 68"
  shows "\<exists>ag. steps R T (fst (Agent_init R T ssz asz seed tg)) es = Inr ag
           \<and> trace ag = []
           \<and> ((t_step ag + 1) mod UPDATE_EVERY = 0
                \<and> BATCH_SIZE < buffer_len (add (memory ag) s a r s' d)) = (length es = 67)
           \<and> (\<forall>ag'. step R T ag s a r s' d = Inr ag' \<longrightarrow>
                (Ev_learn \<in> set (trace ag')) = (length es = 67))"
proof -
  let ?init = "fst (Agent_init R T ssz asz seed tg)"
  let ?cur = "?init\<lparr>memory := add_all (memory ?init) es, t_step := length es mod UPDATE_EVERY\<rparr>"
  have st: "steps R T ?init es = Inr ?cur" and bl: "buffer_len (add_all (memory ?init) es) = length es"
    using steps_before_learning [of ?init es R T] assms by (simp_all add: fresh_agent)
  have tr: "trace ?cur = []" by (simp add: fresh_agent)
  have "buffer_len (add (memory ?cur) s a r s' d) = buffer_len (memory ?cur) + 1"
    using bl assms by (intro buffer_len_add) (simp add: fresh_agent BUFFER_SIZE_def)
  then have bl': "buffer_len (add (memory ?cur) s a r s' d) = length es + 1"
    using bl by simp
  have gate: "((t_step ?cur + 1) mod UPDATE_EVERY = 0
                \<and> BATCH_SIZE < buffer_len (add (memory ?cur) s a r s' d)) = (length es = 67)"
    using assms unfolding bl' by (simp add: UPDATE_EVERY_def BATCH_SIZE_def) presburger
  have "(Ev_learn \<in> set (trace ag')) = (length es = 67)"
    if "step R T ?cur s a r s' d = Inr ag'" for ag'
    using step_outcome [OF that] gate tr by (auto split: if_splits)
  then have all: "\<forall>ag'. step R T ?cur s a r s' d = Inr ag' \<longrightarrow>
      (Ev_learn \<in> set (trace ag')) = (length es = 67)"
    by blast
  show ?thesis
    by (rule exI [of _ ?cur]) (rule conjI st tr gate all)+
qed

theorem learning_starts_at_step_68_witness:
  "\<exists>ag. steps scripted_random plain_torch (fst (Agent_init scripted_random plain_torch 4 2 0 ()))
           (replicate 67 synthetic_transition) = Inr ag
      \<and> trace ag = []
      \<and> (t_step ag + 1) mod UPDATE_EVERY = 0
      \<and> BATCH_SIZE < buffer_len (add (memory ag) [Fin 0, Fin 0, Fin 0, Fin 0] 1 (Fin 1) [Fin 0, Fin 0, Fin 0, Fin 0] False)"
  using learning_starts_at_step_68 [of "replicate 67 synthetic_transition" scripted_random plain_torch
      4 2 0 "()" "[Fin 0, Fin 0, Fin 0, Fin 0]" 1 "Fin 1" "[Fin 0, Fin 0, Fin 0, Fin 0]" False]
  by auto

text \<open>
  After 65 calls of \<^verbatim>\<open>step\<close> on a new agent of \<open>state_size = 4\<close> and \<open>action_size = 2\<close>
  \<^verbatim>\<open>learn\<close> has not been called: the counter is 1 and the buffer holds 65 transitions.
\<close>

theorem no_learning_in_65_steps:
  "(case steps scripted_random plain_torch (fst (Agent_init scripted_random plain_torch 4 2 0 ()))
           (replicate 65 synthetic_transition) of
      Inl e \<Rightarrow> None
    | Inr ag \<Rightarrow> Some (trace ag, t_step ag, buffer_len (memory ag)))
   = Some ([], 1, 65)"
  using steps_before_learning [of "fst (Agent_init scripted_random plain_torch 4 2 0 ())"
      "replicate 65 synthetic_transition" scripted_random plain_torch]
  by (simp add: fresh_agent UPDATE_EVERY_def)


subsection \<open>Construction\<close>

text \<open>
  C10. For every state size, action size and seed, and whatever the state of torch's
  generator before, the local and the target network of a new agent have the same
  parameters: each \<^verbatim>\<open>QNetwork\<close> constructor seeds the generator with the same seed
  before it draws its weights.
\<close>

theorem agent_init_same_parameters:
  "qnetwork_local (fst (Agent_init R T ssz asz seed tg)) =
     qnetwork_target (fst (Agent_init R T ssz asz seed tg))"
  by (simp add: Agent_init_def Let_def split_beta QNetwork_init_def)

end
